theory Spec2Isabelle
  imports Complex_Main
begin

section \<open>Common JavaScript notions\<close>

text \<open>
  A JavaScript \<open>number\<close> is only ever stored and handed on by the code below, never
  computed with, so it is modelled by \<open>real\<close>. A thrown \<open>Error\<close> is a value carrying
  the message of the source.
\<close>

type_synonym number = real

datatype error = Error string

text \<open>Truthiness of an optional string: \<open>undefined\<close> and the empty string are falsy.\<close>

definition truthy :: "string option \<Rightarrow> bool" where
  "truthy s = (case s of None \<Rightarrow> False | Some t \<Rightarrow> t \<noteq> [])"

text \<open>The outcome of one promise under \<open>Promise.allSettled\<close>.\<close>

datatype 'a settled = Fulfilled 'a | Rejected string

section \<open>embeddings.ts\<close>

subsection \<open>Data\<close>

text \<open>\<open>GoogleGenerativeAIEmbeddingsParams\<close>: every field is optional.\<close>

record embeddings_params =
  p_modelName :: "string option"
  p_model :: "string option"
  p_taskType :: "string option"
  p_title :: "string option"
  p_outputDimensionality :: "number option"
  p_stripNewLines :: "bool option"
  p_apiKey :: "string option"
  p_baseUrl :: "string option"

text \<open>
  The options the vendor client \<open>GoogleGenAI\<close> is constructed with; the client itself is
  external and appears below only as the function that answers \<open>embedContent\<close>.
\<close>

record client_options =
  co_apiKey :: "string option"
  co_baseUrl :: "string option"

text \<open>The fields of a \<open>GoogleGenerativeAIEmbeddings\<close> object.\<close>

record embeddings_obj =
  apiKey :: "string option"
  modelName :: string
  model :: string
  taskType :: "string option"
  title :: "string option"
  outputDimensionality :: "number option"
  stripNewLines :: bool
  maxBatchSize :: nat
  client :: client_options

text \<open>\<open>EmbedContentConfig\<close>, restricted to the three keys the code writes.\<close>

record embed_config =
  cfg_taskType :: "string option"
  cfg_title :: "string option"
  cfg_outputDimensionality :: "number option"

text \<open>The argument of \<open>client.models.embedContent\<close> and its response.\<close>

record embed_request =
  req_model :: string
  req_contents :: "string list"
  req_config :: "embed_config option"

record content_embedding =
  emb_values :: "number list option"

record embed_response =
  embeddings :: "content_embedding list option"

text \<open>
  The vendor call. Its answer is not determined by the request (two identical chunks may
  settle differently), so the model takes the answers as a function of the position of the
  call among the calls issued and of the request.
\<close>

type_synonym vendor = "nat \<Rightarrow> embed_request \<Rightarrow> embed_response settled"

subsection \<open>Constructor\<close>

text \<open>\<open>s.replace(/^models\//, "")\<close>: one leading \<open>models/\<close> is removed.\<close>

definition replace_models_prefix :: "string \<Rightarrow> string" where
  "replace_models_prefix s = (if take 7 s = ''models/'' then drop 7 s else s)"

definition title_error :: error where
  "title_error = Error (''title can only be specified when taskType is set to ''
     @ [CHR 0x27] @ ''RETRIEVAL_DOCUMENT'' @ [CHR 0x27])"

definition api_key_error :: error where
  "api_key_error = Error (''Please set an API key for Google GenerativeAI ''
     @ ''in the environmentb variable GOOGLE_API_KEY ''
     @ ''or in the `apiKey` field of the ''
     @ ''GoogleGenerativeAIEmbeddings constructor'')"

text \<open>
  The constructor, with the value of the environment variable \<open>GOOGLE_API_KEY\<close> as second
  argument. The first argument, \<open>fields\<close> of the source, may be absent. The field
  initialisers give \<open>modelName\<close> and \<open>model\<close> (\<open>embedding-001\<close>), \<open>stripNewLines\<close>
  (\<open>true\<close>) and \<open>maxBatchSize\<close> (\<open>100\<close>); the constructor does not read
  \<open>fields.stripNewLines\<close>. The two \<open>throw\<close>s are the \<open>Inl\<close> results, in the order of
  the source. The constructor of the base class and that of the vendor client are external;
  of the latter the model keeps the options it is given. No vendor call is made: the
  constructor has no access to the vendor call.
\<close>

definition constructor :: "embeddings_params option \<Rightarrow> string option \<Rightarrow> error + embeddings_obj" where
  "constructor flds env =
    (let modelName' =
           (case Option.bind flds p_model of
              Some m \<Rightarrow> replace_models_prefix m
            | None \<Rightarrow>
               (case Option.bind flds p_modelName of
                  Some m \<Rightarrow> replace_models_prefix m
                | None \<Rightarrow> ''embedding-001''));
         taskType' = Option.bind flds p_taskType;
         title' = Option.bind flds p_title;
         outputDimensionality' = Option.bind flds p_outputDimensionality
     in if truthy title' \<and> taskType' \<noteq> Some ''RETRIEVAL_DOCUMENT'' then Inl title_error
        else
          (let apiKey' = (case Option.bind flds p_apiKey of Some k \<Rightarrow> Some k | None \<Rightarrow> env)
           in if \<not> truthy apiKey' then Inl api_key_error
              else Inr \<lparr> apiKey = apiKey',
                         modelName = modelName',
                         model = modelName',
                         taskType = taskType',
                         title = title',
                         outputDimensionality = outputDimensionality',
                         stripNewLines = True,
                         maxBatchSize = 100,
                         client = \<lparr> co_apiKey = apiKey',
                                     co_baseUrl =
                                       (if truthy (Option.bind flds p_baseUrl)
                                        then Option.bind flds p_baseUrl else None) \<rparr> \<rparr>))"

subsection \<open>Methods\<close>

text \<open>\<open>_cleanText\<close>: \<open>text.replace(/\n/g, " ")\<close> when \<open>stripNewLines\<close> is set.\<close>

definition cleanText :: "embeddings_obj \<Rightarrow> string \<Rightarrow> string" where
  "cleanText self txt =
     (if stripNewLines self then map (\<lambda>c. if c = CHR 0x0A then CHR '' '' else c) txt else txt)"

text \<open>
  \<open>_embedConfig\<close>: a key is written only under its test; an object without keys is
  replaced by \<open>undefined\<close>.
\<close>

definition embedConfig :: "embeddings_obj \<Rightarrow> embed_config option" where
  "embedConfig self =
    (let config = \<lparr> cfg_taskType = (if truthy (taskType self) then taskType self else None),
                     cfg_title = (if truthy (title self) then title self else None),
                     cfg_outputDimensionality = outputDimensionality self \<rparr>
     in if cfg_taskType config \<noteq> None \<or> cfg_title config \<noteq> None
           \<or> cfg_outputDimensionality config \<noteq> None
        then Some config else None)"

text \<open>The request \<open>_embedQueryContent\<close> sends, and the method itself.\<close>

definition embedQueryRequest :: "embeddings_obj \<Rightarrow> string \<Rightarrow> embed_request" where
  "embedQueryRequest self txt =
     \<lparr> req_model = model self, req_contents = [cleanText self txt], req_config = embedConfig self \<rparr>"


text \<open>
  Modelled from the spec: \<open>chunkArray\<close> of the core package (\<open>utils/chunk_array\<close>) is
  not among the sources. The spec says that the batch path "splits the input list into
  fixed-size chunks (size = vendor's maximum batch size)": consecutive chunks of
  \<open>chunkSize\<close> items, the last one holding what remains. No chunk is produced for an empty
  list, nor for a chunk size of zero.
\<close>

function chunkArray :: "'a list \<Rightarrow> nat \<Rightarrow> 'a list list" where
  "chunkArray arr chunkSize =
     (if chunkSize = 0 \<or> arr = [] then []
      else take chunkSize arr # chunkArray (drop chunkSize arr) chunkSize)"
  by pat_completeness auto
termination
  by (relation "measure (\<lambda>(arr, chunkSize). length arr)") auto

declare chunkArray.simps [simp del]

text \<open>
  The requests \<open>_embedDocumentsContent\<close> issues, one for each chunk, in the order of the
  chunks.
\<close>

definition embedDocumentsRequests :: "embeddings_obj \<Rightarrow> string list \<Rightarrow> embed_request list" where
  "embedDocumentsRequests self documents =
     map (\<lambda>chunk. \<lparr> req_model = model self,
                     req_contents = map (cleanText self) chunk,
                     req_config = embedConfig self \<rparr>)
         (chunkArray documents (maxBatchSize self))"

text \<open>
  \<open>_embedDocumentsContent\<close>. \<open>Promise.allSettled\<close> yields one outcome for each request, in
  the order of the requests, and never rejects. The callback of \<open>flatMap\<close> receives the
  outcome and its index; the index is below the number of chunks, so that
  \<open>batchEmbedChunks[idx]\<close> is always a chunk.
\<close>

definition embedDocumentsContent :: "embeddings_obj \<Rightarrow> vendor \<Rightarrow> string list \<Rightarrow> number list list" where
  "embedDocumentsContent self call documents =
    (let batchEmbedChunks = chunkArray documents (maxBatchSize self);
         requests = embedDocumentsRequests self documents;
         responses = map (\<lambda>(idx, req). call idx req) (zip [0..<length requests] requests)
     in concat
          (map (\<lambda>(res, idx).
                  case res of
                    Fulfilled v \<Rightarrow>
                      (case embeddings v of
                         Some es \<Rightarrow> map (\<lambda>e. case emb_values e of Some vs \<Rightarrow> vs | None \<Rightarrow> []) es
                       | None \<Rightarrow> [])
                  | Rejected reason \<Rightarrow> replicate (length (batchEmbedChunks ! idx)) [])
               (zip responses [0..<length responses])))"

subsection \<open>Notions used to state the properties of the batch path\<close>

text \<open>
  The answers of the vendor fit the chunks when every fulfilled call carries a list of
  embeddings with one entry for each item of the chunk that was sent.
\<close>

definition answers_fit :: "embeddings_obj \<Rightarrow> vendor \<Rightarrow> string list \<Rightarrow> bool" where
  "answers_fit self call documents =
    (let batchEmbedChunks = chunkArray documents (maxBatchSize self);
         requests = embedDocumentsRequests self documents
     in list_all
          (\<lambda>idx. case call idx (requests ! idx) of
                    Fulfilled v \<Rightarrow>
                      (case embeddings v of
                         Some es \<Rightarrow> length es = length (batchEmbedChunks ! idx)
                       | None \<Rightarrow> False)
                  | Rejected reason \<Rightarrow> True)
          [0..<length requests])"

text \<open>What the chunk at position \<open>k\<close> contributes to the result.\<close>

definition chunk_block :: "embeddings_obj \<Rightarrow> vendor \<Rightarrow> string list \<Rightarrow> nat \<Rightarrow> number list list" where
  "chunk_block self call documents k =
     (case call k (embedDocumentsRequests self documents ! k) of
        Fulfilled v \<Rightarrow>
          (case embeddings v of
             Some es \<Rightarrow> map (\<lambda>e. case emb_values e of Some vs \<Rightarrow> vs | None \<Rightarrow> []) es
           | None \<Rightarrow> [])
      | Rejected reason \<Rightarrow> replicate (length (chunkArray documents (maxBatchSize self) ! k)) [])"

text \<open>Every request the object issues for a query and for a list of documents.\<close>

definition issued_requests :: "embeddings_obj \<Rightarrow> string \<Rightarrow> string list \<Rightarrow> embed_request set" where
  "issued_requests self txt documents =
     insert (embedQueryRequest self txt) (set (embedDocumentsRequests self documents))"

subsection \<open>Concrete inputs\<close>

text \<open>
  The parameters of the test \<open>embedQuery forwards outputDimensionality to the SDK\<close>, and
  variations of them.
\<close>

definition no_params :: embeddings_params where
  "no_params = \<lparr> p_modelName = None, p_model = None, p_taskType = None, p_title = None,
                  p_outputDimensionality = None, p_stripNewLines = None, p_apiKey = None,
                  p_baseUrl = None \<rparr>"

definition test_params :: embeddings_params where
  "test_params = no_params \<lparr> p_apiKey := Some ''test-key'', p_outputDimensionality := Some 128 \<rparr>"

definition test_obj :: embeddings_obj where
  "test_obj = \<lparr> apiKey = Some ''test-key'', modelName = ''embedding-001'',
                 model = ''embedding-001'', taskType = None, title = None,
                 outputDimensionality = Some 128, stripNewLines = True, maxBatchSize = 100,
                 client = \<lparr> co_apiKey = Some ''test-key'', co_baseUrl = None \<rparr> \<rparr>"

definition prefixed_params :: embeddings_params where
  "prefixed_params = no_params \<lparr> p_apiKey := Some ''test-key'', p_model := Some ''models/embedding-001'' \<rparr>"

definition titled_params :: embeddings_params where
  "titled_params = no_params \<lparr> p_apiKey := Some ''test-key'', p_title := Some ''Report'',
                               p_taskType := Some ''CLUSTERING'' \<rparr>"

definition prefixed_obj :: embeddings_obj where
  "prefixed_obj = test_obj \<lparr> outputDimensionality := None \<rparr>"

definition custom_params :: embeddings_params where
  "custom_params = no_params \<lparr> p_apiKey := Some ''test-key'', p_model := Some ''text-embedding-004'',
                               p_taskType := Some ''RETRIEVAL_QUERY'',
                               p_outputDimensionality := Some 64 \<rparr>"

definition custom_obj :: embeddings_obj where
  "custom_obj = \<lparr> apiKey = Some ''test-key'', modelName = ''text-embedding-004'',
                   model = ''text-embedding-004'', taskType = Some ''RETRIEVAL_QUERY'', title = None,
                   outputDimensionality = Some 64, stripNewLines = True, maxBatchSize = 100,
                   client = \<lparr> co_apiKey = Some ''test-key'', co_baseUrl = None \<rparr> \<rparr>"

text \<open>The object of the tests with the public field \<open>maxBatchSize\<close> lowered to two.\<close>

definition small_batch_obj :: embeddings_obj where
  "small_batch_obj = test_obj \<lparr> maxBatchSize := 2 \<rparr>"

text \<open>A vendor whose calls are fulfilled by a response without embeddings.\<close>

definition vendor_without_embeddings :: vendor where
  "vendor_without_embeddings idx req = Fulfilled \<lparr> embeddings = None \<rparr>"

text \<open>
  A vendor that rejects its first call and fulfils every other one with the embedding
  \<open>[0.5]\<close> for each content sent.
\<close>

definition vendor_first_rejected :: vendor where
  "vendor_first_rejected idx req =
     (if idx = 0 then Rejected ''quota''
      else Fulfilled \<lparr> embeddings =
             Some (map (\<lambda>c. \<lparr> emb_values = Some [1 / 2] \<rparr>) (req_contents req)) \<rparr>)"


section \<open>utils/tools.ts\<close>

subsection \<open>Data\<close>

text \<open>JSON values, for schemas and for the keys of a native tool the code never reads.\<close>

datatype json =
    JNull
  | JBool bool
  | JNum number
  | JStr string
  | JArr "json list"
  | JObj "(string \<times> json) list"

text \<open>
  A property of a JavaScript object: the key may be absent, present with the value
  \<open>undefined\<close>, or present with a value. The operator \<open>in\<close> tests the key; truthiness
  and \<open>||\<close> test the value (an array, even an empty one, is truthy).
\<close>

datatype 'a js_prop = KeyAbsent | KeyUndefined | KeyValue 'a

definition key_in :: "'a js_prop \<Rightarrow> bool" where
  "key_in p = (p \<noteq> KeyAbsent)"

definition value_or_empty :: "'a list js_prop \<Rightarrow> 'a list" where
  "value_or_empty p = (case p of KeyValue xs \<Rightarrow> xs | _ \<Rightarrow> [])"

text \<open>The vendor's \<open>FunctionDeclaration\<close> and \<open>Tool\<close> (\<open>GenerativeAITool\<close>).\<close>

record function_declaration =
  fd_name :: "string option"
  fd_description :: "string option"
  fd_parameters :: "json option"

record genai_tool =
  functionDeclarations :: "function_declaration list js_prop"
  otherKeys :: "(string \<times> json) list"

text \<open>A framework-native tool (\<open>StructuredToolInterface\<close>) and an OpenAI-style \<open>ToolDefinition\<close>.\<close>

record structured_tool =
  st_name :: string
  st_description :: string
  st_schema :: json

record tool_definition =
  td_name :: string
  td_description :: "string option"
  td_parameters :: json

text \<open>
  An input element together with its classification. The classifiers \<open>isLangChainTool\<close>
  and \<open>isOpenAITool\<close> of the core package are not among the sources; \<open>processTools\<close>
  asks them in this order and takes everything else for a native tool, so an element is
  one of three kinds.
\<close>

datatype tool =
    isLangChainTool: LangChainTool structured_tool
  | isOpenAITool: OpenAITool tool_definition
  | isNativeTool: NativeTool genai_tool

datatype FunctionCallingConfigMode = MODE_UNSPECIFIED | AUTO | ANY | NONE

record function_calling_config =
  mode :: FunctionCallingConfigMode
  allowedFunctionNames :: "string list option"

record tool_config =
  functionCallingConfig :: function_calling_config

text \<open>\<open>ToolChoice\<close> is a string or an object.\<close>

datatype tool_choice = ChoiceString string | ChoiceObject json

record extra_options =
  x_toolChoice :: "tool_choice option"
  x_allowedFunctionNames :: "string list option"

record converted_tools =
  ct_tools :: "genai_tool list"
  ct_toolConfig :: "tool_config option"

subsection \<open>Conversion helpers\<close>

text \<open>
  Modelled from the spec: \<open>removeAdditionalProperties\<close> of \<open>zod_to_genai_parameters\<close> is
  not among the sources. The spec speaks of "JSON-schema parameters with any
  \<open>additionalProperties\<close> key stripped, since the vendor schema dialect forbids it": the
  key is removed from every object of the schema.
\<close>

fun removeAdditionalProperties :: "json \<Rightarrow> json" where
  "removeAdditionalProperties (JObj kvs) =
     JObj (map (map_prod id removeAdditionalProperties)
             (filter (\<lambda>kv. fst kv \<noteq> ''additionalProperties'') kvs))"
| "removeAdditionalProperties (JArr xs) = JArr (map removeAdditionalProperties xs)"
| "removeAdditionalProperties j = j"

text \<open>
  Modelled from the spec: \<open>convertToGenerativeAITools\<close> of \<open>common\<close> is not among the
  sources. The spec says that framework-native tools "are each converted to the vendor's
  function-declaration shape (name, description, JSON-schema parameters with any
  \<open>additionalProperties\<close> key stripped)"; the result is a list of one tool that groups
  the declarations, of which \<open>processTools\<close> takes the first element.
\<close>

definition convertToGenerativeAITools :: "structured_tool list \<Rightarrow> genai_tool list" where
  "convertToGenerativeAITools ts =
     [\<lparr> functionDeclarations =
          KeyValue (map (\<lambda>t. \<lparr> fd_name = Some (st_name t),
                               fd_description = Some (st_description t),
                               fd_parameters = Some (removeAdditionalProperties (st_schema t)) \<rparr>) ts),
        otherKeys = [] \<rparr>]"

definition convertOpenAIToolToGenAI :: "tool_definition \<Rightarrow> genai_tool" where
  "convertOpenAIToolToGenAI t =
     \<lparr> functionDeclarations =
         KeyValue [\<lparr> fd_name = Some (td_name t),
                     fd_description = td_description t,
                     fd_parameters = Some (removeAdditionalProperties (td_parameters t)) \<rparr>],
       otherKeys = [] \<rparr>"

subsection \<open>processTools\<close>

definition conversion_error :: error where
  "conversion_error = Error ''Failed to convert OpenAI structured tool to GenerativeAI tool''"

definition type_error :: error where
  "type_error = Error ''TypeError: Cannot read properties of undefined''"

text \<open>
  The body of \<open>tools.forEach\<close>, on the two accumulators \<open>functionDeclarationTools\<close> and
  \<open>genAITools\<close>. Destructuring an empty array leaves \<open>convertedTool\<close> undefined, and
  reading a property of it throws.
\<close>

definition processTool ::
  "tool \<Rightarrow> function_declaration list \<times> genai_tool list
     \<Rightarrow> error + function_declaration list \<times> genai_tool list" where
  "processTool t acc =
    (case acc of (functionDeclarationTools, genAITools) \<Rightarrow>
      (case t of
         LangChainTool lt \<Rightarrow>
           (case convertToGenerativeAITools [lt] of
              [] \<Rightarrow> Inl type_error
            | convertedTool # _ \<Rightarrow>
                (case functionDeclarations convertedTool of
                   KeyValue ds \<Rightarrow> Inr (functionDeclarationTools @ ds, genAITools)
                 | _ \<Rightarrow> Inr (functionDeclarationTools, genAITools)))
       | OpenAITool ot \<Rightarrow>
           (case functionDeclarations (convertOpenAIToolToGenAI ot) of
              KeyValue ds \<Rightarrow> Inr (functionDeclarationTools @ ds, genAITools)
            | _ \<Rightarrow> Inl conversion_error)
       | NativeTool nt \<Rightarrow> Inr (functionDeclarationTools, genAITools @ [nt])))"

fun forEach_tools ::
  "tool list \<Rightarrow> function_declaration list \<times> genai_tool list
     \<Rightarrow> error + function_declaration list \<times> genai_tool list" where
  "forEach_tools [] acc = Inr acc"
| "forEach_tools (t # ts) acc =
     (case processTool t acc of Inl e \<Rightarrow> Inl e | Inr acc' \<Rightarrow> forEach_tools ts acc')"

text \<open>
  The callback of \<open>genAITools.map\<close> reads and clears the variable
  \<open>functionDeclarationTools\<close>; the variable is threaded through the list. The merged tool
  is a new object with the single key \<open>functionDeclarations\<close>.
\<close>

fun merge_declarations :: "genai_tool list \<Rightarrow> function_declaration list \<Rightarrow> genai_tool list" where
  "merge_declarations [] functionDeclarationTools = []"
| "merge_declarations (t # ts) functionDeclarationTools =
     (if length functionDeclarationTools > 0 \<and> key_in (functionDeclarations t)
      then \<lparr> functionDeclarations =
               KeyValue (value_or_empty (functionDeclarations t) @ functionDeclarationTools),
             otherKeys = [] \<rparr>
           # merge_declarations ts []
      else t # merge_declarations ts functionDeclarationTools)"

definition processTools :: "tool list \<Rightarrow> error + genai_tool list" where
  "processTools tools =
    (case forEach_tools tools ([], []) of
       Inl e \<Rightarrow> Inl e
     | Inr (functionDeclarationTools, genAITools) \<Rightarrow>
         (case find (\<lambda>t. key_in (functionDeclarations t)) genAITools of
            Some genAIFunctionDeclaration \<Rightarrow>
              Inr (merge_declarations genAITools functionDeclarationTools)
          | None \<Rightarrow>
              Inr (genAITools
                   @ (if length functionDeclarationTools > 0
                      then [\<lparr> functionDeclarations = KeyValue functionDeclarationTools,
                              otherKeys = [] \<rparr>]
                      else []))))"

subsection \<open>createToolConfig and convertToolsToGenAI\<close>

definition modeMap :: "string \<rightharpoonup> FunctionCallingConfigMode" where
  "modeMap = [''any'' \<mapsto> ANY, ''auto'' \<mapsto> AUTO, ''none'' \<mapsto> NONE]"

text \<open>
  What the tests of \<open>createToolConfig\<close> see of a \<open>toolChoice\<close>: whether it is a
  string (\<open>typeof toolChoice === "string"\<close>), and whether it is truthy (it is, unless it
  is absent or the empty string).
\<close>

definition choice_string :: "tool_choice option \<Rightarrow> string option" where
  "choice_string toolChoice =
     (case toolChoice of Some (ChoiceString s) \<Rightarrow> Some s | _ \<Rightarrow> None)"

definition choice_truthy :: "tool_choice option \<Rightarrow> bool" where
  "choice_truthy toolChoice =
     (case toolChoice of None \<Rightarrow> False | Some (ChoiceString s) \<Rightarrow> s \<noteq> [] | Some (ChoiceObject _) \<Rightarrow> True)"

text \<open>\<open>base.includes(toolChoice)\<close>: only a string can be equal to an element of \<open>base\<close>.\<close>

definition includes_choice :: "string list \<Rightarrow> tool_choice option \<Rightarrow> bool" where
  "includes_choice base toolChoice =
     (case choice_string toolChoice of Some s \<Rightarrow> s \<in> set base | None \<Rightarrow> False)"

text \<open>
  \<open>createToolConfig\<close>. An array of allowed names is truthy even when it is empty, so
  its test is whether it was given.
\<close>

definition createToolConfig :: "genai_tool list \<Rightarrow> extra_options option \<Rightarrow> tool_config option" where
  "createToolConfig genAITools extra =
    (case extra of
       None \<Rightarrow> None
     | Some ex \<Rightarrow>
        if length genAITools = 0 then None
        else
          (let toolChoice = x_toolChoice ex;
               allowedFunctionNames' = x_allowedFunctionNames ex
           in if choice_truthy toolChoice \<and> includes_choice [''any'', ''auto'', ''none''] toolChoice
              then Some \<lparr> functionCallingConfig =
                     \<lparr> mode = (case Option.bind (choice_string toolChoice) modeMap of
                                 Some m \<Rightarrow> m | None \<Rightarrow> MODE_UNSPECIFIED),
                       allowedFunctionNames = allowedFunctionNames' \<rparr> \<rparr>
              else if choice_string toolChoice \<noteq> None \<or> allowedFunctionNames' \<noteq> None
              then Some \<lparr> functionCallingConfig =
                     \<lparr> mode = ANY,
                       allowedFunctionNames =
                         Some ((case allowedFunctionNames' of Some ns \<Rightarrow> ns | None \<Rightarrow> [])
                               @ (case choice_string toolChoice of
                                    Some s \<Rightarrow> if choice_truthy toolChoice then [s] else []
                                  | None \<Rightarrow> [])) \<rparr> \<rparr>
              else None))"

definition convertToolsToGenAI :: "tool list \<Rightarrow> extra_options option \<Rightarrow> error + converted_tools" where
  "convertToolsToGenAI tools extra =
    (case processTools tools of
       Inl e \<Rightarrow> Inl e
     | Inr genAITools \<Rightarrow>
         Inr \<lparr> ct_tools = genAITools, ct_toolConfig = createToolConfig genAITools extra \<rparr>)"

subsection \<open>Notions used to state the properties of the normalizer\<close>

text \<open>The declarations one input element is converted to; a native tool is not converted.\<close>

definition converted_declarations :: "tool \<Rightarrow> function_declaration list" where
  "converted_declarations t =
     (case t of
        LangChainTool lt \<Rightarrow>
          (case convertToGenerativeAITools [lt] of
             [] \<Rightarrow> []
           | convertedTool # _ \<Rightarrow> value_or_empty (functionDeclarations convertedTool))
      | OpenAITool ot \<Rightarrow> value_or_empty (functionDeclarations (convertOpenAIToolToGenAI ot))
      | NativeTool nt \<Rightarrow> [])"

text \<open>The native tools of the input, in input order.\<close>

definition native_tools :: "tool list \<Rightarrow> genai_tool list" where
  "native_tools tools = concat (map (\<lambda>t. case t of NativeTool nt \<Rightarrow> [nt] | _ \<Rightarrow> []) tools)"

text \<open>A grouped-declarations entry: a tool whose only key is \<open>functionDeclarations\<close>.\<close>

definition declarations_group :: "function_declaration list \<Rightarrow> genai_tool" where
  "declarations_group ds = \<lparr> functionDeclarations = KeyValue ds, otherKeys = [] \<rparr>"

subsection \<open>Concrete tools\<close>

definition weather_tool :: structured_tool where
  "weather_tool = \<lparr> st_name = ''get_weather'', st_description = ''Weather of a city'',
                     st_schema = JObj [(''type'', JStr ''object''),
                                       (''additionalProperties'', JBool False)] \<rparr>"

definition time_tool :: structured_tool where
  "time_tool = \<lparr> st_name = ''get_time'', st_description = ''Local time'',
                  st_schema = JObj [(''type'', JStr ''object'')] \<rparr>"


text \<open>An OpenAI-style tool with an empty name, no description and \<open>null\<close> parameters.\<close>

definition malformed_tool :: tool_definition where
  "malformed_tool = \<lparr> td_name = [], td_description = None, td_parameters = JNull \<rparr>"


definition native_group :: genai_tool where
  "native_group = \<lparr> functionDeclarations =
                       KeyValue [\<lparr> fd_name = Some ''native_fn'', fd_description = None,
                                   fd_parameters = None \<rparr>],
                     otherKeys = [] \<rparr>"



definition choice_extra :: "string \<Rightarrow> string list option \<Rightarrow> extra_options" where
  "choice_extra s names = \<lparr> x_toolChoice = Some (ChoiceString s), x_allowedFunctionNames = names \<rparr>"

section \<open>Properties of embeddings.ts\<close>

subsection \<open>Chunks\<close>

lemma chunkArray_Nil: "chunkArray [] n = []"
  by (simp add: chunkArray.simps)

lemma chunkArray_step:
  "0 < n \<Longrightarrow> xs \<noteq> [] \<Longrightarrow> chunkArray xs n = take n xs # chunkArray (drop n xs) n"
  by (subst chunkArray.simps) simp

lemma concat_chunkArray: "0 < n \<Longrightarrow> concat (chunkArray xs n) = xs"
proof (induction xs n rule: chunkArray.induct)
  case (1 arr chunkSize)
  show ?case
  proof (cases "arr = []")
    case True
    then show ?thesis by (simp add: chunkArray_Nil)
  next
    case False
    with 1 show ?thesis by (simp add: chunkArray_step)
  qed
qed

lemma blocks_nth:
  assumes "0 < n"
    and "length bs = length (chunkArray xs n)"
    and "\<forall>k < length bs. length (bs ! k) = length (chunkArray xs n ! k)"
    and "i < length xs"
  shows "i div n < length bs \<and> i mod n < length (bs ! (i div n))
         \<and> concat bs ! i = bs ! (i div n) ! (i mod n)"
  using assms
proof (induction xs n arbitrary: bs i rule: chunkArray.induct)
  case (1 arr chunkSize)
  from "1.prems" have ne: "arr \<noteq> []" and pos: "0 < chunkSize" by auto
  have step: "chunkArray arr chunkSize = take chunkSize arr # chunkArray (drop chunkSize arr) chunkSize"
    using chunkArray_step [OF pos ne] .
  from "1.prems"(2) step obtain b bs' where bs: "bs = b # bs'"
    and len': "length bs' = length (chunkArray (drop chunkSize arr) chunkSize)"
    by (cases bs) auto
  from "1.prems"(3) [rule_format, of 0] bs step
  have lb: "length b = min (length arr) chunkSize" by simp
  have rest: "\<forall>k < length bs'. length (bs' ! k) = length (chunkArray (drop chunkSize arr) chunkSize ! k)"
  proof (intro allI impI)
    fix k assume "k < length bs'"
    with "1.prems"(3) [rule_format, of "Suc k"] bs step show "length (bs' ! k) = length (chunkArray (drop chunkSize arr) chunkSize ! k)"
      by simp
  qed
  show ?case
  proof (cases "i < chunkSize")
    case True
    with "1.prems"(4) lb have "i < length b" by simp
    with True bs show ?thesis by (simp add: nth_append)
  next
    case False
    then have ge: "chunkSize \<le> i" by simp
    with "1.prems"(4) lb have lbn: "length b = chunkSize" by simp
    from ge "1.prems"(4) have i': "i - chunkSize < length (drop chunkSize arr)" by simp
    have IH: "(i - chunkSize) div chunkSize < length bs' \<and>
          (i - chunkSize) mod chunkSize < length (bs' ! ((i - chunkSize) div chunkSize)) \<and>
          concat bs' ! (i - chunkSize) = bs' ! ((i - chunkSize) div chunkSize) ! ((i - chunkSize) mod chunkSize)"
      using "1.IH" [OF _ pos len' rest i'] pos ne by simp
    from ge pos have d: "i div chunkSize = Suc ((i - chunkSize) div chunkSize)"
      by (simp add: le_div_geq)
    from ge pos have m: "i mod chunkSize = (i - chunkSize) mod chunkSize"
      by (simp add: le_mod_geq)
    from IH show ?thesis
      unfolding d m bs using lbn ge by (simp add: nth_append)
  qed
qed

lemma blocks_length:
  assumes "0 < n"
    and "length bs = length (chunkArray xs n)"
    and "\<forall>k < length bs. length (bs ! k) = length (chunkArray xs n ! k)"
  shows "length (concat bs) = length xs"
proof -
  have "map length bs = map length (chunkArray xs n)"
    using assms(2,3) by (simp add: list_eq_iff_nth_eq)
  then have "length (concat bs) = length (concat (chunkArray xs n))"
    by (simp add: length_concat)
  then show ?thesis by (simp add: concat_chunkArray assms(1))
qed

subsection \<open>The batch path as a concatenation of blocks\<close>

lemma length_embedDocumentsRequests:
  "length (embedDocumentsRequests self documents) = length (chunkArray documents (maxBatchSize self))"
  by (simp add: embedDocumentsRequests_def)

lemma embedDocumentsContent_blocks:
  "embedDocumentsContent self call documents =
     concat (map (chunk_block self call documents)
               [0..<length (chunkArray documents (maxBatchSize self))])"
proof -
  let ?n = "length (chunkArray documents (maxBatchSize self))"
  let ?reqs = "embedDocumentsRequests self documents"
  have n: "length ?reqs = ?n" by (rule length_embedDocumentsRequests)
  have resp: "map (\<lambda>(idx, req). call idx req) (zip [0..<?n] ?reqs)
                = map (\<lambda>k. call k (?reqs ! k)) [0..<?n]"
    by (rule nth_equalityI) (simp_all add: n)
  have blocks: "map (\<lambda>(res, idx).
                  case res of
                    Fulfilled v \<Rightarrow>
                      (case embeddings v of
                         Some es \<Rightarrow> map (\<lambda>e. case emb_values e of Some vs \<Rightarrow> vs | None \<Rightarrow> []) es
                       | None \<Rightarrow> [])
                  | Rejected reason \<Rightarrow> replicate (length (chunkArray documents (maxBatchSize self) ! idx)) [])
               (zip (map (\<lambda>k. call k (?reqs ! k)) [0..<?n]) [0..<?n])
             = map (chunk_block self call documents) [0..<?n]"
    by (rule nth_equalityI) (simp_all add: chunk_block_def)
  have "embedDocumentsContent self call documents
          = concat (map (\<lambda>(res, idx).
                  case res of
                    Fulfilled v \<Rightarrow>
                      (case embeddings v of
                         Some es \<Rightarrow> map (\<lambda>e. case emb_values e of Some vs \<Rightarrow> vs | None \<Rightarrow> []) es
                       | None \<Rightarrow> [])
                  | Rejected reason \<Rightarrow> replicate (length (chunkArray documents (maxBatchSize self) ! idx)) [])
               (zip (map (\<lambda>k. call k (?reqs ! k)) [0..<?n]) [0..<?n]))"
    by (simp only: embedDocumentsContent_def Let_def n resp length_map length_upt diff_zero length_zip min.idem)
  then show ?thesis by (simp only: blocks)
qed

lemma answers_fit_block:
  assumes "answers_fit self call documents"
    and "k < length (chunkArray documents (maxBatchSize self))"
  shows "length (chunk_block self call documents k)
           = length (chunkArray documents (maxBatchSize self) ! k)"
proof -
  from assms have "case call k (embedDocumentsRequests self documents ! k) of
                    Fulfilled v \<Rightarrow>
                      (case embeddings v of
                         Some es \<Rightarrow> length es = length (chunkArray documents (maxBatchSize self) ! k)
                       | None \<Rightarrow> False)
                  | Rejected reason \<Rightarrow> True"
    by (simp add: answers_fit_def Let_def list_all_iff length_embedDocumentsRequests)
  then show ?thesis
    by (simp add: chunk_block_def split: settled.splits option.splits)
qed

lemma test_obj_constructed: "constructor (Some test_params) None = Inr test_obj"
  by (simp add: constructor_def Let_def test_params_def no_params_def test_obj_def truthy_def)

lemma small_batch_fit: "answers_fit small_batch_obj vendor_first_rejected [''a'', ''b'', ''c'']"
  by (simp add: answers_fit_def embedDocumentsRequests_def chunkArray.simps
      small_batch_obj_def test_obj_def vendor_first_rejected_def upt_rec)

lemma large_batch_fit: "answers_fit test_obj vendor_first_rejected (replicate 101 ''d'')"
  by code_simp

text \<open>
  C1, as stated, fails: the object of the tests is given one document, the vendor call is
  fulfilled by a response without embeddings, and the result is the empty list.
\<close>

theorem embedDocuments_misaligned_counterexample:
  "embedDocumentsContent test_obj vendor_without_embeddings [''hello''] = []
   \<and> length (embedDocumentsContent test_obj vendor_without_embeddings [''hello''])
       \<noteq> length [''hello'']"
  by (simp add: embedDocumentsContent_def embedDocumentsRequests_def chunkArray.simps
      test_obj_def vendor_without_embeddings_def)

text \<open>
  C1 (amended). Let the batch size be positive (it is 100 in every constructed object) and
  let every fulfilled vendor call carry one embedding for each item of its chunk. Then for
  every list of documents and every outcome of the calls, \<open>_embedDocumentsContent\<close>
  returns a list as long as the input; document \<open>i\<close> is sent, cleaned, at position
  \<open>i mod maxBatchSize\<close> of request \<open>i div maxBatchSize\<close>, and entry \<open>i\<close> of the result is
  the empty vector when that call was rejected, and otherwise the vector the response holds
  at that position (the empty vector if the embedding has no values).
\<close>

theorem embedDocuments_alignment:
  assumes pos: "0 < maxBatchSize self"
    and fit: "answers_fit self call documents"
  shows "length (embedDocumentsContent self call documents) = length documents
       \<and> (\<forall>i < length documents.
           i div maxBatchSize self < length (embedDocumentsRequests self documents)
         \<and> req_contents (embedDocumentsRequests self documents ! (i div maxBatchSize self))
               ! (i mod maxBatchSize self) = cleanText self (documents ! i)
         \<and> embedDocumentsContent self call documents ! i =
           (case call (i div maxBatchSize self)
                   (embedDocumentsRequests self documents ! (i div maxBatchSize self)) of
              Rejected reason \<Rightarrow> []
            | Fulfilled v \<Rightarrow>
                (case embeddings v of
                   None \<Rightarrow> []
                 | Some es \<Rightarrow>
                     (case emb_values (es ! (i mod maxBatchSize self)) of
                        Some vs \<Rightarrow> vs | None \<Rightarrow> []))))"
proof -
  let ?B = "maxBatchSize self"
  let ?cs = "chunkArray documents ?B"
  let ?bs = "map (chunk_block self call documents) [0..<length ?cs]"
  have res: "embedDocumentsContent self call documents = concat ?bs"
    by (rule embedDocumentsContent_blocks)
  have len: "length ?bs = length ?cs" by simp
  have lens: "\<forall>k < length ?bs. length (?bs ! k) = length (?cs ! k)"
    using answers_fit_block [OF fit] by simp
  have A: "length (embedDocumentsContent self call documents) = length documents"
    unfolding res by (rule blocks_length [OF pos len lens])
  have B: "i div ?B < length (embedDocumentsRequests self documents)
         \<and> req_contents (embedDocumentsRequests self documents ! (i div ?B))
               ! (i mod ?B) = cleanText self (documents ! i)
         \<and> embedDocumentsContent self call documents ! i =
           (case call (i div ?B) (embedDocumentsRequests self documents ! (i div ?B)) of
              Rejected reason \<Rightarrow> []
            | Fulfilled v \<Rightarrow>
                (case embeddings v of
                   None \<Rightarrow> []
                 | Some es \<Rightarrow>
                     (case emb_values (es ! (i mod ?B)) of
                        Some vs \<Rightarrow> vs | None \<Rightarrow> [])))"
    if i: "i < length documents" for i
  proof -
    let ?k = "i div ?B" and ?j = "i mod ?B"
    note b = blocks_nth [OF pos len lens i]
    from b have k: "?k < length ?cs" by simp
    from b have nth: "concat ?bs ! i = ?bs ! ?k ! ?j" by (rule conjunct2 [THEN conjunct2])
    have c: "?k < length ?cs \<and> ?j < length (?cs ! ?k) \<and> concat ?cs ! i = ?cs ! ?k ! ?j"
      by (rule blocks_nth [OF pos refl _ i]) simp
    from c have jc: "?j < length (?cs ! ?k)" by simp
    from c have doc: "concat ?cs ! i = ?cs ! ?k ! ?j" by simp
    from doc have doc': "?cs ! ?k ! ?j = documents ! i"
      by (simp add: concat_chunkArray pos)
    have blk: "?bs ! ?k = chunk_block self call documents ?k" using k by simp
    have fitk: "length (chunk_block self call documents ?k) = length (?cs ! ?k)"
      by (rule answers_fit_block [OF fit k])
    have c1: "?k < length (embedDocumentsRequests self documents)"
      using k by (simp add: length_embedDocumentsRequests)
    have c2: "req_contents (embedDocumentsRequests self documents ! ?k) ! ?j
                = cleanText self (documents ! i)"
      using k jc doc' by (simp add: embedDocumentsRequests_def)
    have c3: "chunk_block self call documents ?k ! ?j =
           (case call ?k (embedDocumentsRequests self documents ! ?k) of
              Rejected reason \<Rightarrow> []
            | Fulfilled v \<Rightarrow>
                (case embeddings v of
                   None \<Rightarrow> []
                 | Some es \<Rightarrow>
                     (case emb_values (es ! ?j) of
                        Some vs \<Rightarrow> vs | None \<Rightarrow> [])))"
      using fitk jc
      by (auto simp add: chunk_block_def split: settled.splits option.splits)
    show ?thesis
      using c1 c2 c3 unfolding res nth blk by simp
  qed
  from A B show ?thesis by blast
qed


text \<open>
  Witness for C1: three documents in chunks of two, the first call rejected; and 101
  documents with the constructed object, the first call rejected.
\<close>

theorem embedDocuments_alignment_witness:
  "0 < maxBatchSize small_batch_obj
   \<and> answers_fit small_batch_obj vendor_first_rejected [''a'', ''b'', ''c'']
   \<and> length (embedDocumentsContent small_batch_obj vendor_first_rejected [''a'', ''b'', ''c'']) = 3
   \<and> embedDocumentsContent small_batch_obj vendor_first_rejected [''a'', ''b'', ''c''] ! 0 = []
   \<and> 0 < maxBatchSize test_obj
   \<and> answers_fit test_obj vendor_first_rejected (replicate 101 ''d'')
   \<and> length (embedDocumentsContent test_obj vendor_first_rejected (replicate 101 ''d'')) = 101
   \<and> embedDocumentsContent test_obj vendor_first_rejected (replicate 101 ''d'') ! 99 = []"
proof -
  have p1: "0 < maxBatchSize small_batch_obj" by (simp add: small_batch_obj_def)
  have p2: "0 < maxBatchSize test_obj" by (simp add: test_obj_def)
  note t1 = embedDocuments_alignment [OF p1 small_batch_fit]
  note t2 = embedDocuments_alignment [OF p2 large_batch_fit]
  from t1 have a: "length (embedDocumentsContent small_batch_obj vendor_first_rejected [''a'', ''b'', ''c'']) = 3"
    by simp
  from t1 have "embedDocumentsContent small_batch_obj vendor_first_rejected [''a'', ''b'', ''c''] ! 0 =
           (case vendor_first_rejected (0 div maxBatchSize small_batch_obj)
                   (embedDocumentsRequests small_batch_obj [''a'', ''b'', ''c'']
                      ! (0 div maxBatchSize small_batch_obj)) of
              Rejected reason \<Rightarrow> []
            | Fulfilled v \<Rightarrow>
                (case embeddings v of
                   None \<Rightarrow> []
                 | Some es \<Rightarrow>
                     (case emb_values (es ! (0 mod maxBatchSize small_batch_obj)) of
                        Some vs \<Rightarrow> vs | None \<Rightarrow> [])))"
    by simp
  then have b: "embedDocumentsContent small_batch_obj vendor_first_rejected [''a'', ''b'', ''c''] ! 0 = []"
    by (simp add: vendor_first_rejected_def)
  from t2 have c: "length (embedDocumentsContent test_obj vendor_first_rejected (replicate 101 ''d'')) = 101"
    by simp
  from t2 have "embedDocumentsContent test_obj vendor_first_rejected (replicate 101 ''d'') ! 99 =
           (case vendor_first_rejected (99 div maxBatchSize test_obj)
                   (embedDocumentsRequests test_obj (replicate 101 ''d'')
                      ! (99 div maxBatchSize test_obj)) of
              Rejected reason \<Rightarrow> []
            | Fulfilled v \<Rightarrow>
                (case embeddings v of
                   None \<Rightarrow> []
                 | Some es \<Rightarrow>
                     (case emb_values (es ! (99 mod maxBatchSize test_obj)) of
                        Some vs \<Rightarrow> vs | None \<Rightarrow> [])))"
    by simp
  then have d: "embedDocumentsContent test_obj vendor_first_rejected (replicate 101 ''d'') ! 99 = []"
    by (simp add: vendor_first_rejected_def test_obj_def)
  from p1 p2 small_batch_fit large_batch_fit a b c d show ?thesis by simp
qed

subsection \<open>What the constructor stores, and what every request carries\<close>

lemma constructor_fields:
  assumes "constructor flds env = Inr self"
  shows "model self = (case Option.bind flds p_model of
                         Some m \<Rightarrow> replace_models_prefix m
                       | None \<Rightarrow> (case Option.bind flds p_modelName of
                                    Some m \<Rightarrow> replace_models_prefix m
                                  | None \<Rightarrow> ''embedding-001''))"
    and "taskType self = Option.bind flds p_taskType"
    and "title self = Option.bind flds p_title"
    and "outputDimensionality self = Option.bind flds p_outputDimensionality"
    and "stripNewLines self"
    and "maxBatchSize self = 100"
  using assms by (auto simp add: constructor_def Let_def split: if_splits)

lemma issued_request_fields:
  assumes "r \<in> issued_requests self txt documents"
  shows "req_model r = model self" and "req_config r = embedConfig self"
  using assms by (auto simp add: issued_requests_def embedQueryRequest_def embedDocumentsRequests_def)

lemma embedConfig_cases:
  "embedConfig self =
     (if truthy (taskType self) \<or> truthy (title self) \<or> outputDimensionality self \<noteq> None
      then Some \<lparr> cfg_taskType = (if truthy (taskType self) then taskType self else None),
                  cfg_title = (if truthy (title self) then title self else None),
                  cfg_outputDimensionality = outputDimensionality self \<rparr>
      else None)"
  by (auto simp add: embedConfig_def Let_def truthy_def split: option.splits)

lemma plain_obj_constructed:
  "constructor (Some (no_params \<lparr> p_apiKey := Some ''test-key'' \<rparr>)) None = Inr prefixed_obj"
  by (simp add: constructor_def Let_def no_params_def prefixed_obj_def test_obj_def truthy_def)

lemma prefixed_obj_constructed: "constructor (Some prefixed_params) None = Inr prefixed_obj"
  by (simp add: constructor_def Let_def prefixed_params_def no_params_def prefixed_obj_def
      test_obj_def truthy_def replace_models_prefix_def)

lemma custom_obj_constructed: "constructor (Some custom_params) None = Inr custom_obj"
  by (simp add: constructor_def Let_def custom_params_def no_params_def custom_obj_def
      truthy_def replace_models_prefix_def)

text \<open>
  The constructor never reads \<open>fields.stripNewLines\<close>: every constructed object strips
  newlines, also when the parameter is \<open>false\<close>.
\<close>

lemma constructor_ignores_stripNewLines:
  "constructor (Some (p \<lparr> p_stripNewLines := b \<rparr>)) env = constructor (Some p) env"
  by (simp add: constructor_def Let_def split: option.splits)

subsection \<open>Validation in the constructor\<close>

text \<open>
  C6, as stated, fails: with the title set to the empty string, no task type and an API
  key, the constructor does not throw. The assignment keeps the empty title (\<open>??\<close> takes
  it for a value), and the test \<open>this.title && ...\<close> takes it for no title.
\<close>

theorem empty_title_counterexample:
  "constructor (Some (no_params \<lparr> p_apiKey := Some ''test-key'', p_title := Some [] \<rparr>)) None
     = Inr (prefixed_obj \<lparr> title := Some [] \<rparr>)"
  by (simp add: constructor_def Let_def no_params_def prefixed_obj_def test_obj_def truthy_def)

text \<open>
  C6 (amended). Constructing the client with a non-empty title and a task type that is
  absent or different from \<open>RETRIEVAL_DOCUMENT\<close> throws the title error; constructing it
  when neither the \<open>apiKey\<close> field nor the environment variable \<open>GOOGLE_API_KEY\<close> holds a
  non-empty string throws as well (the title error if the title test fails first, the API
  key error otherwise). Both happen in the constructor, which issues no vendor call.
\<close>

theorem constructor_validation:
  "(truthy (Option.bind flds p_title) \<and> Option.bind flds p_taskType \<noteq> Some ''RETRIEVAL_DOCUMENT''
      \<longrightarrow> constructor flds env = Inl title_error)
   \<and> (\<not> truthy (Option.bind flds p_apiKey) \<and> \<not> truthy env
      \<longrightarrow> constructor flds env =
            (if truthy (Option.bind flds p_title)
                \<and> Option.bind flds p_taskType \<noteq> Some ''RETRIEVAL_DOCUMENT''
             then Inl title_error else Inl api_key_error))"
  by (auto simp add: constructor_def Let_def truthy_def split: option.splits)

text \<open>
  Witness for C6: a title with the task type \<open>CLUSTERING\<close>, a title without task type,
  an empty \<open>apiKey\<close> field without environment variable, and no fields with an empty
  environment variable.
\<close>

theorem constructor_validation_witness:
  "constructor (Some titled_params) (Some ''env-key'') = Inl title_error
   \<and> constructor (Some (no_params \<lparr> p_title := Some ''Report'' \<rparr>)) (Some ''env-key'') = Inl title_error
   \<and> constructor (Some (no_params \<lparr> p_apiKey := Some [] \<rparr>)) None = Inl api_key_error
   \<and> constructor None (Some []) = Inl api_key_error"
  using constructor_validation [of "Some titled_params" "Some ''env-key''"]
    constructor_validation [of "Some (no_params \<lparr> p_title := Some ''Report'' \<rparr>)" "Some ''env-key''"]
    constructor_validation [of "Some (no_params \<lparr> p_apiKey := Some [] \<rparr>)" None]
    constructor_validation [of None "Some []"]
  by (simp add: titled_params_def no_params_def truthy_def)

subsection \<open>The config block\<close>

text \<open>
  C7. For every request issued by a constructed object, on the query path and on the batch
  path: when \<open>outputDimensionality\<close> was set to a number, the config of the request
  exists and holds exactly that number; when it was not set, no config of a request holds
  the key; and when \<open>outputDimensionality\<close>, \<open>taskType\<close> and \<open>title\<close> are all unset, the
  request has no config at all.
\<close>

theorem embedConfig_outputDimensionality:
  assumes "constructor flds env = Inr self"
    and "r \<in> issued_requests self txt documents"
  shows "(Option.bind flds p_outputDimensionality = Some n
            \<longrightarrow> (\<exists>c. req_config r = Some c \<and> cfg_outputDimensionality c = Some n))
       \<and> (Option.bind flds p_outputDimensionality = None
            \<longrightarrow> (\<forall>c. req_config r = Some c \<longrightarrow> cfg_outputDimensionality c = None))
       \<and> (Option.bind flds p_outputDimensionality = None \<and> Option.bind flds p_taskType = None
            \<and> Option.bind flds p_title = None
            \<longrightarrow> req_config r = None)"
  using constructor_fields(2,3,4) [OF assms(1)] issued_request_fields(2) [OF assms(2)]
  by (simp add: embedConfig_cases truthy_def)

text \<open>
  Witness for C7: the client of the tests (\<open>outputDimensionality: 128\<close>), and a client
  constructed with an API key only.
\<close>

theorem embedConfig_outputDimensionality_witness:
  "constructor (Some test_params) None = Inr test_obj
   \<and> embedQueryRequest test_obj ''hello world'' \<in> issued_requests test_obj ''hello world'' [''doc1'', ''doc2'']
   \<and> p_outputDimensionality test_params = Some 128
   \<and> (\<exists>c. req_config (embedQueryRequest test_obj ''hello world'') = Some c
            \<and> cfg_outputDimensionality c = Some 128)
   \<and> constructor (Some (no_params \<lparr> p_apiKey := Some ''test-key'' \<rparr>)) None = Inr prefixed_obj
   \<and> req_config (embedQueryRequest prefixed_obj ''hello world'') = None"
  using embedConfig_outputDimensionality [OF test_obj_constructed,
          of "embedQueryRequest test_obj ''hello world''" "''hello world''" "[''doc1'', ''doc2'']" 128]
    embedConfig_outputDimensionality [OF plain_obj_constructed,
          of "embedQueryRequest prefixed_obj ''hello world''" "''hello world''" "[]" 0]
    test_obj_constructed plain_obj_constructed
  by (simp add: issued_requests_def test_params_def no_params_def)

subsection \<open>The single-query path\<close>



subsection \<open>The model identifier\<close>

text \<open>
  C9, as stated, fails: configured with the model name \<open>models/embedding-001\<close>, the
  client sends the identifier \<open>embedding-001\<close>.
\<close>

theorem model_prefix_counterexample:
  "p_model prefixed_params = Some ''models/embedding-001''
   \<and> constructor (Some prefixed_params) None = Inr prefixed_obj
   \<and> req_model (embedQueryRequest prefixed_obj ''hello'') = ''embedding-001''
   \<and> req_model (embedQueryRequest prefixed_obj ''hello'') \<noteq> ''models/embedding-001''"
  by (simp add: prefixed_obj_constructed)
     (simp add: prefixed_params_def no_params_def prefixed_obj_def test_obj_def embedQueryRequest_def)

text \<open>
  C9 (amended). The model identifier of every request issued by a constructed object, on
  the query path and on the batch path, is the configured \<open>model\<close> (else the configured
  \<open>modelName\<close>, else \<open>embedding-001\<close>) with one leading \<open>models/\<close> removed; it is the
  configured string itself when that does not start with \<open>models/\<close>. A non-empty task type
  and a numeric output dimensionality are carried unmodified by the config of the request.
\<close>

theorem model_identifier_sent:
  assumes "constructor flds env = Inr self"
    and "r \<in> issued_requests self txt documents"
  shows "req_model r =
           (case Option.bind flds p_model of
              Some m \<Rightarrow> replace_models_prefix m
            | None \<Rightarrow> (case Option.bind flds p_modelName of
                         Some m \<Rightarrow> replace_models_prefix m
                       | None \<Rightarrow> ''embedding-001''))
       \<and> (Option.bind flds p_model = Some m \<and> take 7 m \<noteq> ''models/'' \<longrightarrow> req_model r = m)
       \<and> (Option.bind flds p_model = Some (''models/'' @ m) \<longrightarrow> req_model r = m)
       \<and> (truthy (Option.bind flds p_taskType)
            \<longrightarrow> (\<exists>c. req_config r = Some c \<and> cfg_taskType c = Option.bind flds p_taskType))
       \<and> (Option.bind flds p_outputDimensionality = Some n
            \<longrightarrow> (\<exists>c. req_config r = Some c \<and> cfg_outputDimensionality c = Some n))"
  using constructor_fields(1,2,3,4) [OF assms(1)] issued_request_fields [OF assms(2)]
  by (simp add: embedConfig_cases replace_models_prefix_def)

text \<open>
  Witness for C9: a client configured with \<open>text-embedding-004\<close>, a task type and an
  output dimensionality, and a client configured with \<open>models/embedding-001\<close>.
\<close>

theorem model_identifier_sent_witness:
  "constructor (Some custom_params) None = Inr custom_obj
   \<and> embedQueryRequest custom_obj ''hello'' \<in> issued_requests custom_obj ''hello'' []
   \<and> req_model (embedQueryRequest custom_obj ''hello'') = ''text-embedding-004''
   \<and> (\<exists>c. req_config (embedQueryRequest custom_obj ''hello'') = Some c
           \<and> cfg_taskType c = Some ''RETRIEVAL_QUERY'')
   \<and> (\<exists>c. req_config (embedQueryRequest custom_obj ''hello'') = Some c
           \<and> cfg_outputDimensionality c = Some 64)
   \<and> constructor (Some prefixed_params) None = Inr prefixed_obj
   \<and> req_model (embedQueryRequest prefixed_obj ''hello'') = ''embedding-001''"
  using model_identifier_sent [OF custom_obj_constructed,
          of "embedQueryRequest custom_obj ''hello''" "''hello''" "[]" "''text-embedding-004''" 64]
    model_identifier_sent [OF prefixed_obj_constructed,
          of "embedQueryRequest prefixed_obj ''hello''" "''hello''" "[]" "''embedding-001''" 0]
    custom_obj_constructed prefixed_obj_constructed
  by (simp add: issued_requests_def custom_params_def prefixed_params_def no_params_def truthy_def
      replace_models_prefix_def)

section \<open>Properties of utils/tools.ts\<close>

subsection \<open>The loop and the merge, in closed form\<close>

lemma processTool_eq:
  "processTool t (fds, gts) =
     Inr (fds @ converted_declarations t, gts @ native_tools [t])"
  by (cases t)
     (simp_all add: processTool_def converted_declarations_def native_tools_def
        convertToGenerativeAITools_def convertOpenAIToolToGenAI_def value_or_empty_def)

lemma forEach_tools_eq:
  "forEach_tools tools (fds, gts) =
     Inr (fds @ concat (map converted_declarations tools), gts @ native_tools tools)"
proof (induction tools arbitrary: fds gts)
  case Nil
  show ?case by (simp add: native_tools_def)
next
  case (Cons t ts)
  show ?case
    by (simp add: processTool_eq Cons.IH) (simp add: native_tools_def)
qed

lemma processTools_eq:
  "processTools tools =
     (if \<exists>t \<in> set (native_tools tools). key_in (functionDeclarations t)
      then Inr (merge_declarations (native_tools tools) (concat (map converted_declarations tools)))
      else Inr (native_tools tools
                @ (if concat (map converted_declarations tools) \<noteq> []
                   then [declarations_group (concat (map converted_declarations tools))]
                   else [])))"
proof -
  have "forEach_tools tools ([], []) =
          Inr (concat (map converted_declarations tools), native_tools tools)"
    using forEach_tools_eq [of tools "[]" "[]"] by simp
  moreover have "(find (\<lambda>t. key_in (functionDeclarations t)) (native_tools tools) = None)
        \<longleftrightarrow> \<not> (\<exists>t \<in> set (native_tools tools). key_in (functionDeclarations t))"
    by (auto simp add: find_None_iff)
  ultimately show ?thesis
    by (cases "find (\<lambda>t. key_in (functionDeclarations t)) (native_tools tools)")
       (simp_all add: processTools_def declarations_group_def)
qed



lemma converted_declarations_LangChainTool:
  "converted_declarations (LangChainTool lt) =
     [\<lparr> fd_name = Some (st_name lt), fd_description = Some (st_description lt),
        fd_parameters = Some (removeAdditionalProperties (st_schema lt)) \<rparr>]"
  by (simp add: converted_declarations_def convertToGenerativeAITools_def value_or_empty_def)

lemma converted_declarations_OpenAITool:
  "converted_declarations (OpenAITool ot) =
     [\<lparr> fd_name = Some (td_name ot), fd_description = td_description ot,
        fd_parameters = Some (removeAdditionalProperties (td_parameters ot)) \<rparr>]"
  by (simp add: converted_declarations_def convertOpenAIToolToGenAI_def value_or_empty_def)

lemma converted_declarations_NativeTool: "converted_declarations (NativeTool nt) = []"
  by (simp add: converted_declarations_def)

lemma converted_nonempty:
  "concat (map converted_declarations tools) \<noteq> [] \<longleftrightarrow> (\<exists>t \<in> set tools. \<not> isNativeTool t)"
proof (induction tools)
  case Nil
  show ?case by simp
next
  case (Cons t ts)
  then show ?case
    by (cases t)
       (simp_all add: converted_declarations_LangChainTool converted_declarations_OpenAITool
          converted_declarations_NativeTool)
qed

lemma processTools_empty: "processTools tools = Inr [] \<longleftrightarrow> tools = []"
proof
  assume "tools = []"
  then show "processTools tools = Inr []" by (simp add: processTools_eq native_tools_def)
next
  assume a: "processTools tools = Inr []"
  show "tools = []"
  proof (rule ccontr)
    assume "tools \<noteq> []"
    then obtain t ts where tools: "tools = t # ts" by (cases tools) auto
    show False
    proof (cases "\<exists>t \<in> set (native_tools tools). key_in (functionDeclarations t)")
      case True
      then obtain x where "x \<in> set (native_tools tools)" by blast
      then have "native_tools tools \<noteq> []" by auto
      moreover have "length (merge_declarations gts fds) = length gts" for gts fds
        by (induction gts arbitrary: fds) simp_all
      ultimately have "length (merge_declarations (native_tools tools)
                          (concat (map converted_declarations tools))) \<noteq> 0"
        by simp
      with a True show False
        by (simp add: processTools_eq)
    next
      case False
      with a have n: "native_tools tools = []" and c: "concat (map converted_declarations tools) = []"
        by (auto simp add: processTools_eq split: if_splits)
      from c have "\<forall>t \<in> set tools. isNativeTool t" using converted_nonempty [of tools] by blast
      with tools obtain nt where "t = NativeTool nt" by (cases t) auto
      with n tools show False by (simp add: native_tools_def)
    qed
  qed
qed

lemma native_group_exists:
  assumes "\<exists>t \<in> set (native_tools tools). key_in (functionDeclarations t)"
  shows "\<exists>pre g post. native_tools tools = pre @ g # post
           \<and> (\<forall>t \<in> set pre. \<not> key_in (functionDeclarations t))
           \<and> key_in (functionDeclarations g)"
  using split_list_first_prop [OF assms] by blast

subsection \<open>Framework-native tools only\<close>

text \<open>
  C2, as stated, fails: the empty list is composed only of framework-native tools, and
  \<open>processTools\<close> returns no entry for it.
\<close>

theorem processTools_empty_counterexample: "processTools [] = Inr []"
  by (simp add: processTools_def)

text \<open>
  C2 (amended). For every non-empty input list composed only of framework-native tools,
  \<open>processTools\<close> returns exactly one entry, a group of declarations, and its declarations
  are the converted declarations of the input tools, one for each tool, concatenated in
  input order.
\<close>

theorem processTools_langchain_only:
  assumes "tools \<noteq> []"
    and "\<forall>t \<in> set tools. isLangChainTool t"
  shows "processTools tools
           = Inr [\<lparr> functionDeclarations = KeyValue (concat (map converted_declarations tools)),
                    otherKeys = [] \<rparr>]
       \<and> (\<forall>t \<in> set tools. \<exists>d. converted_declarations t = [d])
       \<and> length (concat (map converted_declarations tools)) = length tools"
proof -
  have one: "\<exists>d. converted_declarations t = [d]" if "t \<in> set tools" for t
  proof -
    from that assms(2) have "isLangChainTool t" by blast
    then obtain lt where "t = LangChainTool lt" by (cases t) simp_all
    then show ?thesis by (simp add: converted_declarations_LangChainTool)
  qed
  have nat: "native_tools tools = []"
    using assms(2) by (induction tools) (auto simp add: native_tools_def split: tool.splits)
  from assms(1) obtain t where t: "t \<in> set tools" by (cases tools) auto
  with assms(2) have "isLangChainTool t" by blast
  then have "\<not> isNativeTool t" by (cases t) simp_all
  with t have ne: "concat (map converted_declarations tools) \<noteq> []"
    using converted_nonempty [of tools] by blast
  have "length (concat (map converted_declarations ts)) = length ts"
    if "\<forall>t \<in> set ts. \<exists>d. converted_declarations t = [d]" for ts
    using that by (induction ts) auto
  with one have len: "length (concat (map converted_declarations tools)) = length tools"
    by blast
  have "processTools tools = Inr [declarations_group (concat (map converted_declarations tools))]"
    using ne by (simp add: processTools_eq nat)
  with one len show ?thesis
    by (simp add: declarations_group_def)
qed

text \<open>Witness for C2: two framework-native tools.\<close>

theorem processTools_langchain_only_witness:
  "[LangChainTool weather_tool, LangChainTool time_tool] \<noteq> []
   \<and> isLangChainTool (LangChainTool weather_tool)
   \<and> isLangChainTool (LangChainTool time_tool)
   \<and> processTools [LangChainTool weather_tool, LangChainTool time_tool]
       = Inr [\<lparr> functionDeclarations =
                  KeyValue [\<lparr> fd_name = Some ''get_weather'',
                              fd_description = Some ''Weather of a city'',
                              fd_parameters = Some (JObj [(''type'', JStr ''object'')]) \<rparr>,
                            \<lparr> fd_name = Some ''get_time'',
                              fd_description = Some ''Local time'',
                              fd_parameters = Some (JObj [(''type'', JStr ''object'')]) \<rparr>],
                otherKeys = [] \<rparr>]"
  using processTools_langchain_only [of "[LangChainTool weather_tool, LangChainTool time_tool]"]
  by (simp add: converted_declarations_LangChainTool weather_tool_def time_tool_def)

subsection \<open>Merging into a native group\<close>



subsection \<open>The conversion error\<close>

text \<open>
  C5 asks that an element classified as an OpenAI-style tool which cannot be converted
  (malformed shape) makes tool processing fail with a conversion error that names the
  tool. The code does not do so. \<open>processTools\<close> guards the conversion with
  \<open>if (functionDeclarations) ... else throw\<close>, but \<open>convertOpenAIToolToGenAI\<close> builds
  \<open>functionDeclarations\<close> as an array literal, which is always truthy: at the element with
  an empty name, no description and \<open>null\<close> for the parameters the test succeeds, the
  element is converted to a declaration, and processing returns a tool list instead of
  the error.
\<close>

theorem processTools_malformed_tool_converted:
  "functionDeclarations (convertOpenAIToolToGenAI malformed_tool)
     = KeyValue [\<lparr> fd_name = Some [], fd_description = None, fd_parameters = Some JNull \<rparr>]
   \<and> processTools [OpenAITool malformed_tool]
     = Inr [\<lparr> functionDeclarations =
                KeyValue [\<lparr> fd_name = Some [], fd_description = None,
                            fd_parameters = Some JNull \<rparr>],
              otherKeys = [] \<rparr>]
   \<and> processTools [OpenAITool malformed_tool] \<noteq> Inl conversion_error"
  by (simp add: processTools_def processTool_def convertOpenAIToolToGenAI_def malformed_tool_def)

subsection \<open>The tool-choice mapping\<close>

text \<open>
  C4, as stated, fails: the empty string is a string other than \<open>any\<close>, \<open>auto\<close> and
  \<open>none\<close>; for it the config is a forced selection whose list of allowed names does not
  contain it.
\<close>

theorem empty_choice_counterexample:
  "createToolConfig [native_group] (Some (choice_extra [] None))
     = Some \<lparr> functionCallingConfig = \<lparr> mode = ANY, allowedFunctionNames = Some [] \<rparr> \<rparr>"
  by (simp add: createToolConfig_def choice_extra_def choice_truthy_def choice_string_def
      includes_choice_def native_group_def)

text \<open>
  C4 (amended). For every non-empty normalized tool list: the tool choices \<open>any\<close>, \<open>auto\<close>
  and \<open>none\<close> give a config with the mode of that name (and the allowed names as
  supplied); every other non-empty string gives a config with mode \<open>ANY\<close> whose allowed
  names are the supplied ones followed by that string.
\<close>

theorem createToolConfig_modes:
  assumes "genAITools \<noteq> []"
  shows "createToolConfig genAITools (Some (choice_extra ''any'' names))
           = Some \<lparr> functionCallingConfig = \<lparr> mode = ANY, allowedFunctionNames = names \<rparr> \<rparr>
       \<and> createToolConfig genAITools (Some (choice_extra ''auto'' names))
           = Some \<lparr> functionCallingConfig = \<lparr> mode = AUTO, allowedFunctionNames = names \<rparr> \<rparr>
       \<and> createToolConfig genAITools (Some (choice_extra ''none'' names))
           = Some \<lparr> functionCallingConfig = \<lparr> mode = NONE, allowedFunctionNames = names \<rparr> \<rparr>
       \<and> (s \<noteq> [] \<and> s \<noteq> ''any'' \<and> s \<noteq> ''auto'' \<and> s \<noteq> ''none''
            \<longrightarrow> createToolConfig genAITools (Some (choice_extra s names))
                  = Some \<lparr> functionCallingConfig =
                             \<lparr> mode = ANY,
                               allowedFunctionNames =
                                 Some ((case names of Some ns \<Rightarrow> ns | None \<Rightarrow> []) @ [s]) \<rparr> \<rparr>
                \<and> s \<in> set ((case names of Some ns \<Rightarrow> ns | None \<Rightarrow> []) @ [s]))"
  using assms
  by (simp add: createToolConfig_def choice_extra_def choice_truthy_def choice_string_def
      includes_choice_def modeMap_def)

text \<open>
  Witness for C4: one native tool, the choice \<open>get_weather\<close> and the allowed name
  \<open>search\<close>.
\<close>

theorem createToolConfig_modes_witness:
  "[native_group] \<noteq> []
   \<and> createToolConfig [native_group] (Some (choice_extra ''auto'' None))
       = Some \<lparr> functionCallingConfig = \<lparr> mode = AUTO, allowedFunctionNames = None \<rparr> \<rparr>
   \<and> createToolConfig [native_group] (Some (choice_extra ''get_weather'' (Some [''search''])))
       = Some \<lparr> functionCallingConfig =
                  \<lparr> mode = ANY, allowedFunctionNames = Some [''search'', ''get_weather''] \<rparr> \<rparr>"
  using createToolConfig_modes [of "[native_group]" None "''get_weather''"]
    createToolConfig_modes [of "[native_group]" "Some [''search'']" "''get_weather''"]
  by simp

subsection \<open>No config without tools or without options\<close>

text \<open>
  C10. Whatever the extra options are, \<open>convertToolsToGenAI\<close> returns the normalized tools
  with an undefined \<open>toolConfig\<close> whenever the normalized tool list is empty or no extra
  options are supplied; the normalized list is empty exactly when the input list is, and
  for the empty input the result is the empty tool list without config and without error,
  so that a tool choice given with it is dropped.
\<close>

theorem convertToolsToGenAI_no_config:
  assumes "processTools tools = Inr genAITools"
    and "genAITools = [] \<or> extra = None"
  shows "convertToolsToGenAI tools extra = Inr \<lparr> ct_tools = genAITools, ct_toolConfig = None \<rparr>
       \<and> (genAITools = [] \<longleftrightarrow> tools = [])
       \<and> convertToolsToGenAI [] extra = Inr \<lparr> ct_tools = [], ct_toolConfig = None \<rparr>"
proof -
  have a: "createToolConfig genAITools extra = None"
    using assms(2) by (auto simp add: createToolConfig_def split: option.splits)
  have b: "createToolConfig [] extra = None"
    by (simp add: createToolConfig_def split: option.splits)
  have c: "genAITools = [] \<longleftrightarrow> tools = []"
    using processTools_empty [of tools] assms(1) by auto
  have d: "processTools [] = Inr []"
    using processTools_empty [of "[]"] by simp
  show ?thesis
    using a b c d by (simp add: convertToolsToGenAI_def assms(1))
qed

text \<open>
  Witness for C10: the empty tool list with a tool choice and allowed names, and one
  framework-native tool without extra options.
\<close>

theorem convertToolsToGenAI_no_config_witness:
  "processTools [] = Inr []
   \<and> convertToolsToGenAI [] (Some (choice_extra ''any'' (Some [''search''])))
       = Inr \<lparr> ct_tools = [], ct_toolConfig = None \<rparr>
   \<and> processTools [LangChainTool time_tool]
       = Inr [declarations_group (converted_declarations (LangChainTool time_tool))]
   \<and> convertToolsToGenAI [LangChainTool time_tool] None
       = Inr \<lparr> ct_tools = [declarations_group (converted_declarations (LangChainTool time_tool))],
               ct_toolConfig = None \<rparr>"
proof -
  have e: "processTools [] = Inr []"
    by (simp add: processTools_eq native_tools_def)
  have t: "processTools [LangChainTool time_tool]
             = Inr [declarations_group (converted_declarations (LangChainTool time_tool))]"
    by (simp add: processTools_eq native_tools_def converted_declarations_LangChainTool)
  from convertToolsToGenAI_no_config [OF e, of "Some (choice_extra ''any'' (Some [''search'']))"]
    convertToolsToGenAI_no_config [OF t, of None] e t
  show ?thesis by simp
qed

end
